theory Spec2Isabelle
  imports Main "HOL-Library.AList"
begin

section \<open>JavaScript values and objects\<close>

text \<open>
  The values that flow through \<^verbatim>\<open>handleBookingRequested\<close>
  (packages/features/bookings/lib/handleBookingRequested.ts).  An object is the list of its
  own enumerable properties in insertion order; a well-formed object has no key twice.
  Numbers that occur here (ids, price, length) are integers.
\<close>

datatype jsval =
    JUndefined
  | JNull
  | JBool bool
  | JNum int
  | JStr string
  | JArr "jsval list"
  | JObj "(string \<times> jsval) list"

type_synonym jsobj = "(string \<times> jsval) list"

definition wf_obj :: "jsobj \<Rightarrow> bool" where
  "wf_obj obj = distinct (map fst obj)"

text \<open>Property read \<^verbatim>\<open>obj[k]\<close> on own properties: \<open>None\<close> when the key is absent.\<close>

definition obj_get :: "jsobj \<Rightarrow> string \<Rightarrow> jsval option" where
  "obj_get obj k = map_of obj k"

text \<open>Property write \<^verbatim>\<open>obj[k] = v\<close>: an existing key keeps its place, a new key is appended.\<close>

definition obj_set :: "jsobj \<Rightarrow> string \<Rightarrow> jsval \<Rightarrow> jsobj" where
  "obj_set obj k v = AList.update k v obj"

text \<open>
  Object spread \<^verbatim>\<open>{ ...target, ...src }\<close>: every own property of \<open>src\<close>, in order, is
  written onto the object built so far (a property whose value is \<^verbatim>\<open>undefined\<close> is copied
  like any other).
\<close>

fun spread :: "jsobj \<Rightarrow> jsobj \<Rightarrow> jsobj" where
  "spread target [] = target"
| "spread target ((k, v) # props) = spread (obj_set target k v) props"

text \<open>Truthiness and the operator \<^verbatim>\<open>a || b\<close>.\<close>

fun truthy :: "jsval \<Rightarrow> bool" where
  "truthy JUndefined = False"
| "truthy JNull = False"
| "truthy (JBool b) = b"
| "truthy (JNum n) = (n \<noteq> 0)"
| "truthy (JStr s) = (s \<noteq> [])"
| "truthy (JArr xs) = True"
| "truthy (JObj ps) = True"

definition js_or :: "jsval \<Rightarrow> jsval \<Rightarrow> jsval" where
  "js_or a b = (if truthy a then a else b)"

section \<open>Errors, promises and the observable run\<close>

datatype error =
    TypeError string
  | Failure string

text \<open>
  What a promise does after the call that made it: it fulfils or rejects after a number of
  ticks of logical time, or it never settles.
\<close>

datatype 'a promise =
    Fulfils nat 'a
  | Rejects nat error
  | NeverSettles

text \<open>
  Modelled from the spec: the enumeration \<^verbatim>\<open>WebhookTriggerEvents\<close> of @calcom/prisma/enums,
  whose declaration is not among the sources.  Its members here are the trigger kinds that
  the specification and the tests name.
\<close>

datatype WebhookTriggerEvents =
    BOOKING_CREATED
  | BOOKING_REQUESTED
  | BOOKING_PAYMENT_INITIATED
  | BOOKING_CANCELLED
  | BOOKING_RESCHEDULED

fun triggerName :: "WebhookTriggerEvents \<Rightarrow> string" where
  "triggerName BOOKING_CREATED = ''BOOKING_CREATED''"
| "triggerName BOOKING_REQUESTED = ''BOOKING_REQUESTED''"
| "triggerName BOOKING_PAYMENT_INITIATED = ''BOOKING_PAYMENT_INITIATED''"
| "triggerName BOOKING_CANCELLED = ''BOOKING_CANCELLED''"
| "triggerName BOOKING_RESCHEDULED = ''BOOKING_RESCHEDULED''"

text \<open>A field of type \<^verbatim>\<open>T | null\<close> that may also be left out (\<^verbatim>\<open>teamId?: number | null\<close>).\<close>

datatype 'a nullish = Undefined | Null | Defined 'a

section \<open>The arguments of handleBookingRequested\<close>

text \<open>\<^verbatim>\<open>args.booking.eventType\<close> (lines 24-33); \<open>None\<close> in a field is \<^verbatim>\<open>null\<close>.\<close>

record EventType =
  et_currency :: string
  et_description :: "string option"
  et_id :: int
  et_length :: int
  et_price :: int
  et_requiresConfirmation :: bool
  et_title :: string
  et_teamId :: "int nullish"

text \<open>\<^verbatim>\<open>args.booking\<close> (lines 23-37).\<close>

record Booking =
  eventType :: "EventType option"
  eventTypeId :: "int option"
  smsReminderNumber :: "string option"
  userId :: "int option"

text \<open>
  The fields of \<^verbatim>\<open>args\<close> that the function destructures (line 40); \<^verbatim>\<open>user\<close>,
  \<^verbatim>\<open>recurringEventId\<close> and \<^verbatim>\<open>prisma\<close> are never read.
\<close>

record Args =
  evt :: jsobj
  bookingId :: int
  booking :: Booking
  paid :: "bool option"

section \<open>Collaborators\<close>

text \<open>
  Modelled from the spec: the subscription record (section 3), whose type is declared by the
  database schema and is not among the sources: owner, optional team and event type, enabled
  triggers, endpoint, active flag, secret and optional app.  The code reads \<^verbatim>\<open>secret\<close>
  (line 63) and \<^verbatim>\<open>subscriberUrl\<close> (line 69).
\<close>

record Webhook =
  wh_userId :: int
  wh_teamId :: "int option"
  wh_eventTypeId :: "int option"
  wh_eventTriggers :: "WebhookTriggerEvents list"
  wh_subscriberUrl :: string
  wh_active :: bool
  wh_secret :: "string option"
  wh_appId :: "string option"

text \<open>The argument object of \<^verbatim>\<open>getWebhooks\<close> (lines 46-51).\<close>

record GetSubscriberOptions =
  opt_userId :: "int option"
  opt_eventTypeId :: "int option"
  opt_triggerEvent :: WebhookTriggerEvents
  opt_teamId :: "int nullish"

text \<open>
  The imported functions (lines 4-7) are parameters of the model: each answers as a function
  of its arguments, with what its promise does.  \<^verbatim>\<open>sendPayload\<close> returns a promise (the code calls \<^verbatim>\<open>.catch\<close> on
  its result), so each of its failures is a rejection.  \<open>isoNow i\<close> is
  \<^verbatim>\<open>new Date().toISOString()\<close> as evaluated for the \<open>i\<close>-th subscriber.
\<close>

record Env =
  sendOrganizerRequestEmail :: "jsobj \<Rightarrow> unit promise"
  sendAttendeeRequestEmail :: "jsobj \<Rightarrow> jsval \<Rightarrow> unit promise"
  getWebhooks :: "GetSubscriberOptions \<Rightarrow> Webhook list promise"
  sendPayload :: "string option \<Rightarrow> WebhookTriggerEvents \<Rightarrow> string \<Rightarrow> Webhook \<Rightarrow> jsobj \<Rightarrow> unit promise"
  isoNow :: "nat \<Rightarrow> string"

text \<open>
  What a run shows: the calls to the collaborators in program order and the lines written
  with \<^verbatim>\<open>console.error\<close>, each stamped with its logical time, and how the returned promise
  ends.
\<close>

datatype call =
    SendOrganizerRequestEmail jsobj
  | SendAttendeeRequestEmail jsobj jsval
  | GetWebhooks GetSubscriberOptions
  | SendPayload "string option" WebhookTriggerEvents string Webhook jsobj

datatype logline =
    WebhookError string error
  | CaughtError error

datatype completion =
    Returns nat
  | Throws nat error
  | NeverReturns

record run =
  calls :: "(nat \<times> call) list"
  console :: "(nat \<times> logline) list"
  completion :: completion

section \<open>handleBookingRequested\<close>

text \<open>Optional chaining \<^verbatim>\<open>booking.eventType?.f\<close>: \<^verbatim>\<open>undefined\<close> when the event type is null.\<close>

definition optChain :: "EventType option \<Rightarrow> (EventType \<Rightarrow> jsval) \<Rightarrow> jsval" where
  "optChain et f = (case et of None \<Rightarrow> JUndefined | Some e \<Rightarrow> f e)"

definition nullable :: "string option \<Rightarrow> jsval" where
  "nullable s = (case s of None \<Rightarrow> JNull | Some x \<Rightarrow> JStr x)"

text \<open>Lines 53-60.\<close>

definition eventTypeInfo :: "Booking \<Rightarrow> jsobj" where
  "eventTypeInfo b =
    [(''eventTitle'', optChain (eventType b) (\<lambda>e. JStr (et_title e))),
     (''eventDescription'', optChain (eventType b) (\<lambda>e. nullable (et_description e))),
     (''requiresConfirmation'',
        js_or (optChain (eventType b) (\<lambda>e. JBool (et_requiresConfirmation e))) JNull),
     (''price'', optChain (eventType b) (\<lambda>e. JNum (et_price e))),
     (''currency'', optChain (eventType b) (\<lambda>e. JStr (et_currency e))),
     (''length'', optChain (eventType b) (\<lambda>e. JNum (et_length e)))]"

text \<open>The trigger-specific fields of this trigger: the shorthand property of line 66.\<close>

definition triggerFields :: "int \<Rightarrow> jsobj" where
  "triggerFields bid = [(''bookingId'', JNum bid)]"

text \<open>Lines 63-67: \<^verbatim>\<open>{ ...evt, ...eventTypeInfo, bookingId }\<close>.\<close>

definition buildPayload :: "jsobj \<Rightarrow> jsobj \<Rightarrow> int \<Rightarrow> jsobj" where
  "buildPayload e info bid = spread (spread (spread [] e) info) (triggerFields bid)"

text \<open>Lines 68-71: the text of the line logged for a failed delivery.\<close>

definition webhookErrorMessage :: "Webhook \<Rightarrow> string" where
  "webhookErrorMessage sub =
     ''Error executing webhook for event: '' @ triggerName BOOKING_REQUESTED @
     '', URL: '' @ wh_subscriberUrl sub"

text \<open>
  One turn of the \<^verbatim>\<open>map\<close> callback (lines 62-67) for the \<open>i\<close>-th subscriber: the call
  it makes, and what the promise that the call returns does.
\<close>

definition deliveryCall :: "Env \<Rightarrow> jsobj \<Rightarrow> nat \<times> Webhook \<Rightarrow> call" where
  "deliveryCall env payload p =
     (case p of (i, sub) \<Rightarrow>
        SendPayload (wh_secret sub) BOOKING_REQUESTED (isoNow env i) sub payload)"

definition deliveryPromise :: "Env \<Rightarrow> jsobj \<Rightarrow> nat \<times> Webhook \<Rightarrow> unit promise" where
  "deliveryPromise env payload p =
     (case p of (i, sub) \<Rightarrow>
        sendPayload env (wh_secret sub) BOOKING_REQUESTED (isoNow env i) sub payload)"

text \<open>
  The \<^verbatim>\<open>.catch\<close> handler of one delivery (lines 67-72), for a call made at time \<open>t\<close>: a
  rejection is logged when it happens; the handler returns, so the chained promise fulfils.
\<close>

definition catchHandler :: "nat \<Rightarrow> Webhook \<Rightarrow> unit promise \<Rightarrow> (nat \<times> logline) list" where
  "catchHandler t sub p =
     (case p of
        Rejects d e \<Rightarrow> [(t + d, WebhookError (webhookErrorMessage sub) e)]
      | Fulfils d u \<Rightarrow> []
      | NeverSettles \<Rightarrow> [])"

text \<open>When the chained promise of a delivery started at \<open>t\<close> settles, if ever.\<close>

definition settledAt :: "nat \<Rightarrow> unit promise \<Rightarrow> nat option" where
  "settledAt t p =
     (case p of
        Fulfils d u \<Rightarrow> Some (t + d)
      | Rejects d e \<Rightarrow> Some (t + d)
      | NeverSettles \<Rightarrow> None)"

text \<open>
  \<^verbatim>\<open>await Promise.all(promises)\<close> (line 74) over promises that cannot reject: control comes
  back once the last of them has settled, and never if one of them never settles.
\<close>

fun awaitAll :: "nat \<Rightarrow> nat option list \<Rightarrow> completion" where
  "awaitAll t [] = Returns t"
| "awaitAll t (None # ps) = NeverReturns"
| "awaitAll t (Some s # ps) = awaitAll (max t s) ps"

definition webhookOptions :: "Booking \<Rightarrow> GetSubscriberOptions" where
  "webhookOptions b =
     \<lparr>opt_userId = userId b,
      opt_eventTypeId = eventTypeId b,
      opt_triggerEvent = BOOKING_REQUESTED,
      opt_teamId = (case eventType b of None \<Rightarrow> Undefined | Some e \<Rightarrow> et_teamId e)\<rparr>"

text \<open>
  Lines 45-78, the \<^verbatim>\<open>try\<close>/\<^verbatim>\<open>catch\<close> statement entered at time \<open>t\<close>: the fan-out
  coordinator that the specification calls \<^verbatim>\<open>notify\<close>.
\<close>

definition notify :: "Env \<Rightarrow> Args \<Rightarrow> nat \<Rightarrow> run" where
  "notify env args t =
     (let options = webhookOptions (booking args) in
      case getWebhooks env options of
        NeverSettles \<Rightarrow>
          \<lparr>calls = [(t, GetWebhooks options)], console = [], completion = NeverReturns\<rparr>
      | Rejects d e \<Rightarrow>
          \<lparr>calls = [(t, GetWebhooks options)],
           console = [(t + d, CaughtError e)],
           completion = Returns (t + d)\<rparr>
      | Fulfils d subs \<Rightarrow>
          (let t1 = t + d;
               payload = buildPayload (evt args) (eventTypeInfo (booking args)) (bookingId args);
               turns = enumerate 0 subs
           in
             \<lparr>calls = (t, GetWebhooks options) # map (\<lambda>p. (t1, deliveryCall env payload p)) turns,
              console =
                concat (map (\<lambda>p. catchHandler t1 (snd p) (deliveryPromise env payload p)) turns),
              completion =
                awaitAll t1 (map (\<lambda>p. settledAt t1 (deliveryPromise env payload p)) turns)\<rparr>))"

text \<open>
  \<^verbatim>\<open>evt.attendees[0]\<close> (line 43): reading a property of \<^verbatim>\<open>undefined\<close> or \<^verbatim>\<open>null\<close> throws a
  TypeError; an index that is not there reads as \<^verbatim>\<open>undefined\<close>.
\<close>

definition firstAttendee :: "jsobj \<Rightarrow> error + jsval" where
  "firstAttendee e =
     (case obj_get e ''attendees'' of
        None \<Rightarrow> Inl (TypeError ''Cannot read properties of undefined (reading '0')'')
      | Some JUndefined \<Rightarrow> Inl (TypeError ''Cannot read properties of undefined (reading '0')'')
      | Some JNull \<Rightarrow> Inl (TypeError ''Cannot read properties of null (reading '0')'')
      | Some (JArr xs) \<Rightarrow> Inr (case xs of [] \<Rightarrow> JUndefined | x # _ \<Rightarrow> x)
      | Some (JStr s) \<Rightarrow> Inr (case s of [] \<Rightarrow> JUndefined | c # _ \<Rightarrow> JStr [c])
      | Some (JObj ps) \<Rightarrow> Inr (case map_of ps ''0'' of None \<Rightarrow> JUndefined | Some v \<Rightarrow> v)
      | Some (JBool b) \<Rightarrow> Inr JUndefined
      | Some (JNum n) \<Rightarrow> Inr JUndefined)"

text \<open>Lines 17-79, called at time \<open>t\<close>.\<close>

definition handleBookingRequested :: "Env \<Rightarrow> Args \<Rightarrow> nat \<Rightarrow> run" where
  "handleBookingRequested env args t =
     (let organizerCall = (t, SendOrganizerRequestEmail (spread [] (evt args))) in
      case sendOrganizerRequestEmail env (spread [] (evt args)) of
        NeverSettles \<Rightarrow> \<lparr>calls = [organizerCall], console = [], completion = NeverReturns\<rparr>
      | Rejects d e \<Rightarrow> \<lparr>calls = [organizerCall], console = [], completion = Throws (t + d) e\<rparr>
      | Fulfils d u \<Rightarrow>
          (case firstAttendee (evt args) of
             Inl e \<Rightarrow> \<lparr>calls = [organizerCall], console = [], completion = Throws (t + d) e\<rparr>
           | Inr a \<Rightarrow>
               (let attendeeCall = (t + d, SendAttendeeRequestEmail (spread [] (evt args)) a) in
                case sendAttendeeRequestEmail env (spread [] (evt args)) a of
                  NeverSettles \<Rightarrow>
                    \<lparr>calls = [organizerCall, attendeeCall], console = [],
                     completion = NeverReturns\<rparr>
                | Rejects d' e \<Rightarrow>
                    \<lparr>calls = [organizerCall, attendeeCall], console = [],
                     completion = Throws (t + d + d') e\<rparr>
                | Fulfils d' u' \<Rightarrow>
                    (let r = notify env args (t + d + d') in
                       r\<lparr>calls := organizerCall # attendeeCall # calls r\<rparr>))))"

section \<open>Observations on a run\<close>

text \<open>The subscription a call delivers to, for a call of \<^verbatim>\<open>sendPayload\<close>.\<close>

fun callTarget :: "call \<Rightarrow> Webhook option" where
  "callTarget (SendPayload secret trigger createdAt sub payload) = Some sub"
| "callTarget (SendOrganizerRequestEmail e) = None"
| "callTarget (SendAttendeeRequestEmail e a) = None"
| "callTarget (GetWebhooks options) = None"

text \<open>The delivery attempts of a run: the subscriptions \<^verbatim>\<open>sendPayload\<close> was called for, in order.\<close>

definition attempts :: "run \<Rightarrow> Webhook list" where
  "attempts r = List.map_filter (\<lambda>tc. callTarget (snd tc)) (calls r)"

fun isWebhookCall :: "call \<Rightarrow> bool" where
  "isWebhookCall (SendPayload secret trigger createdAt sub payload) = True"
| "isWebhookCall (GetWebhooks options) = True"
| "isWebhookCall (SendOrganizerRequestEmail e) = False"
| "isWebhookCall (SendAttendeeRequestEmail e a) = False"

definition webhookCalls :: "run \<Rightarrow> (nat \<times> call) list" where
  "webhookCalls r = filter (\<lambda>tc. isWebhookCall (snd tc)) (calls r)"

text \<open>
  The error with which a request mail rejects, if one is sent and rejects: the organizer's
  mail, or else the attendee's mail when the run gets to send it.
\<close>

definition mailFailure :: "Env \<Rightarrow> Args \<Rightarrow> error option" where
  "mailFailure env args =
     (case sendOrganizerRequestEmail env (spread [] (evt args)) of
        Rejects d e \<Rightarrow> Some e
      | NeverSettles \<Rightarrow> None
      | Fulfils d u \<Rightarrow>
          (case firstAttendee (evt args) of
             Inl e \<Rightarrow> None
           | Inr a \<Rightarrow>
               (case sendAttendeeRequestEmail env (spread [] (evt args)) a of
                  Rejects d' e \<Rightarrow> Some e
                | NeverSettles \<Rightarrow> None
                | Fulfils d' u' \<Rightarrow> None)))"

fun isRejected :: "'a promise \<Rightarrow> bool" where
  "isRejected (Rejects d e) = True"
| "isRejected (Fulfils d u) = False"
| "isRejected NeverSettles = False"

text \<open>
  A caller that awaits \<^verbatim>\<open>notify\<close> twice with the same arguments; \<open>env\<close> and \<open>env'\<close> are the
  collaborators as they answer during the first and during the second call.
\<close>

definition notifyTwice :: "Env \<Rightarrow> Env \<Rightarrow> Args \<Rightarrow> nat \<Rightarrow> run" where
  "notifyTwice env env' args t =
     (let r = notify env args t in
      case completion r of
        Returns t' \<Rightarrow>
          (let r' = notify env' args t' in
             \<lparr>calls = calls r @ calls r', console = console r @ console r',
              completion = completion r'\<rparr>)
      | Throws t' e \<Rightarrow> r
      | NeverReturns \<Rightarrow> r)"

section \<open>The subscriber resolver\<close>

text \<open>
  \<^verbatim>\<open>getWebhooks\<close> itself is not among the sources and stays a parameter.  What the
  specification (section 4.1) promises of its answer is that every subscription in it is
  active and has the queried trigger in its enabled set; \<open>subscribed\<close> is that condition on
  one subscription.
\<close>

definition subscribed :: "WebhookTriggerEvents \<Rightarrow> Webhook \<Rightarrow> bool" where
  "subscribed trigger w = (wh_active w \<and> trigger \<in> set (wh_eventTriggers w))"

section \<open>A concrete scenario\<close>

text \<open>
  A booking as in the tests of handleNewBooking.test.ts: organizer 101, event type 1 of 45
  minutes that requires confirmation, and one booker.  The store holds four subscriptions
  of the organizer: one enabled for BOOKING_REQUESTED, one whose endpoint is down, one that
  is switched off, and one enabled for another trigger only.
\<close>

definition exampleEvt :: jsobj where
  "exampleEvt =
     [(''type'', JStr ''Consultation''),
      (''title'', JStr ''Consultation between Organizer and Booker''),
      (''attendees'',
         JArr [JObj [(''email'', JStr ''booker@example.com''), (''name'', JStr ''Booker'')]]),
      (''length'', JNum 30),
      (''bookingId'', JNum 0)]"

definition exampleEventType :: EventType where
  "exampleEventType =
     \<lparr>et_currency = ''usd'', et_description = None, et_id = 1, et_length = 45, et_price = 0,
      et_requiresConfirmation = True, et_title = ''Consultation'', et_teamId = Null\<rparr>"

definition exampleBooking :: Booking where
  "exampleBooking =
     \<lparr>eventType = Some exampleEventType, eventTypeId = Some 1, smsReminderNumber = None,
      userId = Some 101\<rparr>"

definition exampleArgs :: Args where
  "exampleArgs = \<lparr>evt = exampleEvt, bookingId = 7, booking = exampleBooking, paid = None\<rparr>"

definition hook :: "int \<Rightarrow> WebhookTriggerEvents list \<Rightarrow> string \<Rightarrow> bool \<Rightarrow> Webhook" where
  "hook uid triggers url on =
     \<lparr>wh_userId = uid, wh_teamId = None, wh_eventTypeId = None, wh_eventTriggers = triggers,
      wh_subscriberUrl = url, wh_active = on, wh_secret = None, wh_appId = None\<rparr>"

definition hookUp :: Webhook where
  "hookUp = hook 101 [BOOKING_REQUESTED] ''http://my-webhook.example.com'' True"

definition hookDown :: Webhook where
  "hookDown = hook 101 [BOOKING_CREATED, BOOKING_REQUESTED] ''http://down.example.com'' True"

definition hookOff :: Webhook where
  "hookOff = hook 101 [BOOKING_REQUESTED] ''http://off.example.com'' False"

definition hookCreatedOnly :: Webhook where
  "hookCreatedOnly = hook 101 [BOOKING_CREATED] ''http://created.example.com'' True"

definition exampleStore :: "Webhook list" where
  "exampleStore = [hookUp, hookDown, hookOff, hookCreatedOnly]"

text \<open>
  Collaborators for the scenario: both mails go out, the resolver answers after two ticks
  with the stored subscriptions that are active and enabled for the queried trigger, the
  endpoint at down.example.com refuses the connection, every other endpoint answers.
\<close>

definition exampleEnv :: Env where
  "exampleEnv =
     \<lparr>sendOrganizerRequestEmail = (\<lambda>e. Fulfils 1 ()),
      sendAttendeeRequestEmail = (\<lambda>e a. Fulfils 1 ()),
      getWebhooks =
        (\<lambda>options. Fulfils 2 (filter (subscribed (opt_triggerEvent options)) exampleStore)),
      sendPayload =
        (\<lambda>secret trigger createdAt sub payload.
           if wh_subscriberUrl sub = ''http://down.example.com''
           then Rejects 5 (Failure ''ECONNREFUSED'')
           else Fulfils 3 ()),
      isoNow = (\<lambda>i. ''2023-09-01T10:00:00.000Z'')\<rparr>"

text \<open>The scenario with the storage layer down, so that the resolver rejects.\<close>

definition storageDownEnv :: Env where
  "storageDownEnv =
     exampleEnv\<lparr>getWebhooks := (\<lambda>options. Rejects 4 (Failure ''database unreachable''))\<rparr>"

text \<open>The scenario with a mail transport that refuses the organizer's mail.\<close>

definition mailDownEnv :: Env where
  "mailDownEnv =
     exampleEnv\<lparr>sendOrganizerRequestEmail := (\<lambda>e. Rejects 2 (Failure ''SMTP unavailable''))\<rparr>"


text \<open>The booking whose event type record is unavailable.\<close>

definition orphanArgs :: Args where
  "orphanArgs = exampleArgs\<lparr>booking := exampleBooking\<lparr>eventType := None\<rparr>\<rparr>"


text \<open>The scenario with a mail transport that refuses the attendee's mail only.\<close>

definition attendeeMailDownEnv :: Env where
  "attendeeMailDownEnv =
     exampleEnv\<lparr>sendAttendeeRequestEmail := (\<lambda>e a. Rejects 3 (Failure ''mailbox full''))\<rparr>"



text \<open>Shorthands for the payload and the resolver query of a call.\<close>

abbreviation payloadOf :: "Args \<Rightarrow> jsobj" where
  "payloadOf args \<equiv> buildPayload (evt args) (eventTypeInfo (booking args)) (bookingId args)"

abbreviation optionsOf :: "Args \<Rightarrow> GetSubscriberOptions" where
  "optionsOf args \<equiv> webhookOptions (booking args)"

section \<open>Properties\<close>

subsection \<open>Objects\<close>

lemma map_of_spread:
  "wf_obj src \<Longrightarrow> map_of (spread target src) k =
     (case map_of src k of Some v \<Rightarrow> Some v | None \<Rightarrow> map_of target k)"
proof (induction src arbitrary: target)
  case Nil
  then show ?case by simp
next
  case (Cons p src)
  obtain k' v' where p: "p = (k', v')" by (cases p)
  from Cons.prems p have d: "wf_obj src" and nin: "k' \<notin> fst ` set src"
    by (auto simp: wf_obj_def)
  have "map_of src k' = None" using nin by (simp add: map_of_eq_None_iff)
  then show ?case using Cons.IH[OF d, of "obj_set target k' v'"] p
    by (auto simp: obj_set_def update_conv' split: option.splits)
qed

lemma wf_eventTypeInfo: "wf_obj (eventTypeInfo b)"
  by (simp add: wf_obj_def eventTypeInfo_def)

lemma wf_triggerFields: "wf_obj (triggerFields bid)"
  by (simp add: wf_obj_def triggerFields_def)

lemma buildPayload_get:
  assumes "wf_obj info"
  shows "obj_get (buildPayload e info bid) k =
    (case obj_get (triggerFields bid) k of
       Some v \<Rightarrow> Some v
     | None \<Rightarrow> (case obj_get info k of Some v \<Rightarrow> Some v | None \<Rightarrow> obj_get (spread [] e) k))"
  using assms
  by (simp add: buildPayload_def obj_get_def map_of_spread wf_triggerFields split: option.splits)

lemma obj_get_copy: "wf_obj e \<Longrightarrow> obj_get (spread [] e) k = obj_get e k"
  by (simp add: obj_get_def map_of_spread split: option.splits)

subsection \<open>notify, case by case\<close>

lemma notify_Rejects:
  "getWebhooks env (optionsOf args) = Rejects d e \<Longrightarrow>
   notify env args t =
     \<lparr>calls = [(t, GetWebhooks (optionsOf args))], console = [(t + d, CaughtError e)],
      completion = Returns (t + d)\<rparr>"
  by (simp add: notify_def)

lemma notify_NeverSettles:
  "getWebhooks env (optionsOf args) = NeverSettles \<Longrightarrow>
   notify env args t =
     \<lparr>calls = [(t, GetWebhooks (optionsOf args))], console = [], completion = NeverReturns\<rparr>"
  by (simp add: notify_def)

lemma notify_Fulfils:
  "getWebhooks env (optionsOf args) = Fulfils d subs \<Longrightarrow>
   notify env args t =
     \<lparr>calls = (t, GetWebhooks (optionsOf args)) #
        map (\<lambda>p. (t + d, deliveryCall env (payloadOf args) p)) (enumerate 0 subs),
      console = concat (map (\<lambda>p. catchHandler (t + d) (snd p)
                  (deliveryPromise env (payloadOf args) p)) (enumerate 0 subs)),
      completion = awaitAll (t + d)
        (map (\<lambda>p. settledAt (t + d) (deliveryPromise env (payloadOf args) p)) (enumerate 0 subs))\<rparr>"
  by (simp add: notify_def Let_def)

lemma targets_of_deliveries:
  "List.map_filter (\<lambda>tc. callTarget (snd tc))
     (map (\<lambda>p. (t1, deliveryCall env pl p)) (enumerate n subs)) = subs"
  by (induction subs arbitrary: n) (simp_all add: map_filter_simps deliveryCall_def)

lemma attempts_notify:
  "attempts (notify env args t) =
     (case getWebhooks env (optionsOf args) of
        Fulfils d subs \<Rightarrow> subs | Rejects d e \<Rightarrow> [] | NeverSettles \<Rightarrow> [])"
  by (cases "getWebhooks env (optionsOf args)")
     (simp_all add: notify_Rejects notify_NeverSettles notify_Fulfils attempts_def
        map_filter_simps targets_of_deliveries)

lemma delivery_in_calls:
  assumes "(tc, SendPayload secret trigger createdAt sub payload) \<in> set (calls (notify env args t))"
  obtains d subs i where
    "getWebhooks env (optionsOf args) = Fulfils d subs" "i < length subs" "sub = subs ! i"
    "tc = t + d" "secret = wh_secret sub" "trigger = BOOKING_REQUESTED"
    "createdAt = isoNow env i" "payload = payloadOf args"
proof (cases "getWebhooks env (optionsOf args)")
  case (Fulfils d subs)
  with assms obtain p where p: "p \<in> set (enumerate 0 subs)"
    and c: "(tc, SendPayload secret trigger createdAt sub payload) = (t + d, deliveryCall env (payloadOf args) p)"
    by (auto simp: notify_Fulfils)
  obtain i s where ps: "p = (i, s)" by (cases p)
  from p ps have "i < length subs" "s = subs ! i" by (auto simp: in_set_enumerate_eq)
  with c ps Fulfils that show ?thesis by (auto simp: deliveryCall_def)
next
  case (Rejects d e)
  with assms show ?thesis by (simp add: notify_Rejects)
next
  case NeverSettles
  with assms show ?thesis by (simp add: notify_NeverSettles)
qed

subsection \<open>awaitAll\<close>


lemma awaitAll_no_throw: "awaitAll t ps \<noteq> Throws t' e"
  by (induction t ps rule: awaitAll.induct) simp_all

lemma awaitAll_total: "None \<notin> set ps \<Longrightarrow> \<exists>tr. awaitAll t ps = Returns tr"
  by (induction t ps rule: awaitAll.induct) simp_all

lemma awaitAll_never: "None \<in> set ps \<Longrightarrow> awaitAll t ps = NeverReturns"
  by (induction t ps rule: awaitAll.induct) auto

lemma notify_no_throw: "completion (notify env args t) \<noteq> Throws t' e"
  by (cases "getWebhooks env (optionsOf args)")
     (simp_all add: notify_Rejects notify_NeverSettles notify_Fulfils awaitAll_no_throw)

subsection \<open>handleBookingRequested, case by case\<close>

lemma handle_reaches_notify:
  assumes "webhookCalls (handleBookingRequested env args t) \<noteq> []"
  shows "\<exists>d d' a.
      sendOrganizerRequestEmail env (spread [] (evt args)) = Fulfils d () \<and>
      firstAttendee (evt args) = Inr a \<and>
      sendAttendeeRequestEmail env (spread [] (evt args)) a = Fulfils d' () \<and>
      calls (handleBookingRequested env args t) =
        (t, SendOrganizerRequestEmail (spread [] (evt args))) #
        (t + d, SendAttendeeRequestEmail (spread [] (evt args)) a) #
        calls (notify env args (t + d + d')) \<and>
      console (handleBookingRequested env args t) = console (notify env args (t + d + d')) \<and>
      completion (handleBookingRequested env args t) = completion (notify env args (t + d + d'))"
  using assms
  by (auto simp: handleBookingRequested_def webhookCalls_def Let_def
      split: promise.splits sum.splits)

lemma handle_delivery_in_calls:
  assumes "(tc, SendPayload secret trigger createdAt sub payload)
             \<in> set (calls (handleBookingRequested env args t))"
  shows "\<exists>t'. (tc, SendPayload secret trigger createdAt sub payload)
             \<in> set (calls (notify env args t'))"
proof -
  from assms have "(tc, SendPayload secret trigger createdAt sub payload)
      \<in> set (webhookCalls (handleBookingRequested env args t))"
    by (simp add: webhookCalls_def)
  then have "webhookCalls (handleBookingRequested env args t) \<noteq> []" by auto
  from handle_reaches_notify[OF this] assms show ?thesis by auto
qed

subsection \<open>The scenario, evaluated\<close>

lemma example_resolved:
  "getWebhooks exampleEnv (optionsOf exampleArgs) = Fulfils 2 [hookUp, hookDown]"
  by (simp add: exampleEnv_def exampleArgs_def exampleBooking_def exampleEventType_def
      webhookOptions_def exampleStore_def subscribed_def
      hookUp_def hookDown_def hookOff_def hookCreatedOnly_def hook_def)

lemma example_firstAttendee:
  "firstAttendee exampleEvt =
     Inr (JObj [(''email'', JStr ''booker@example.com''), (''name'', JStr ''Booker'')])"
  by (simp add: firstAttendee_def exampleEvt_def obj_get_def)

lemma wf_exampleEvt: "wf_obj exampleEvt"
  by (simp add: wf_obj_def exampleEvt_def)

subsection \<open>The payload\<close>

text \<open>
  Claim C3.  Every payload that \<^verbatim>\<open>handleBookingRequested\<close> hands to \<^verbatim>\<open>sendPayload\<close> reads, at
  each key, the value of the trigger-specific fields when they have the key, otherwise the
  value of the event-type info when it has the key, otherwise the value of the calendar
  event.  A key counts as present when it is an own property, whatever its value.
\<close>

theorem payload_precedence:
  assumes "wf_obj (evt args)"
    and "(tc, SendPayload secret trigger createdAt sub payload)
           \<in> set (calls (handleBookingRequested env args t))"
  shows "obj_get payload k =
    (case obj_get (triggerFields (bookingId args)) k of
       Some v \<Rightarrow> Some v
     | None \<Rightarrow>
        (case obj_get (eventTypeInfo (booking args)) k of
           Some v \<Rightarrow> Some v
         | None \<Rightarrow> obj_get (evt args) k))"
proof -
  from handle_delivery_in_calls[OF assms(2)] obtain t' where
    "(tc, SendPayload secret trigger createdAt sub payload) \<in> set (calls (notify env args t'))"
    by blast
  then have "payload = payloadOf args" by (rule delivery_in_calls)
  then show ?thesis
    by (simp add: buildPayload_get[OF wf_eventTypeInfo] obj_get_copy[OF assms(1)]
        split: option.splits)
qed


lemma example_handle_calls:
  "calls (handleBookingRequested exampleEnv exampleArgs 0) =
     [(0, SendOrganizerRequestEmail (spread [] exampleEvt)),
      (1, SendAttendeeRequestEmail (spread [] exampleEvt)
            (JObj [(''email'', JStr ''booker@example.com''), (''name'', JStr ''Booker'')])),
      (2, GetWebhooks (optionsOf exampleArgs)),
      (4, SendPayload None BOOKING_REQUESTED ''2023-09-01T10:00:00.000Z'' hookUp
            (payloadOf exampleArgs)),
      (4, SendPayload None BOOKING_REQUESTED ''2023-09-01T10:00:00.000Z'' hookDown
            (payloadOf exampleArgs))]"
proof -
  have a: "evt exampleArgs = exampleEvt" by (simp add: exampleArgs_def)
  have o: "sendOrganizerRequestEmail exampleEnv (spread [] exampleEvt) = Fulfils 1 ()"
    by (simp add: exampleEnv_def)
  have b: "\<And>x. sendAttendeeRequestEmail exampleEnv (spread [] exampleEvt) x = Fulfils 1 ()"
    by (simp add: exampleEnv_def)
  have n: "isoNow exampleEnv = (\<lambda>i. ''2023-09-01T10:00:00.000Z'')"
    by (simp add: exampleEnv_def)
  have s: "wh_secret hookUp = None" "wh_secret hookDown = None"
    by (simp_all add: hookUp_def hookDown_def hook_def)
  show ?thesis
    by (simp add: handleBookingRequested_def a o b example_firstAttendee
        notify_Fulfils[OF example_resolved] enumerate_simps deliveryCall_def n s)
qed

theorem payload_precedence_witness:
  "wf_obj (evt exampleArgs) \<and>
   (4, SendPayload None BOOKING_REQUESTED ''2023-09-01T10:00:00.000Z'' hookUp
         (payloadOf exampleArgs))
      \<in> set (calls (handleBookingRequested exampleEnv exampleArgs 0)) \<and>
   obj_get (evt exampleArgs) ''bookingId'' = Some (JNum 0) \<and>
   obj_get (payloadOf exampleArgs) ''bookingId'' = Some (JNum 7) \<and>
   obj_get (evt exampleArgs) ''length'' = Some (JNum 30) \<and>
   obj_get (payloadOf exampleArgs) ''length'' = Some (JNum 45) \<and>
   obj_get (payloadOf exampleArgs) ''title'' =
     Some (JStr ''Consultation between Organizer and Booker'')"
proof -
  have w: "wf_obj (evt exampleArgs)" by (simp add: exampleArgs_def wf_exampleEvt)
  have c: "(4, SendPayload None BOOKING_REQUESTED ''2023-09-01T10:00:00.000Z'' hookUp
         (payloadOf exampleArgs))
      \<in> set (calls (handleBookingRequested exampleEnv exampleArgs 0))"
    by (simp add: example_handle_calls)
  have e: "obj_get (evt exampleArgs) ''bookingId'' = Some (JNum 0)"
     "obj_get (evt exampleArgs) ''length'' = Some (JNum 30)"
    by (simp_all add: exampleArgs_def exampleEvt_def obj_get_def)
  have 1: "obj_get (payloadOf exampleArgs) ''bookingId'' = Some (JNum 7)"
    using payload_precedence[OF w c, of "''bookingId''"]
    by (simp add: exampleArgs_def triggerFields_def obj_get_def)
  have 2: "obj_get (payloadOf exampleArgs) ''length'' = Some (JNum 45)"
    using payload_precedence[OF w c, of "''length''"]
    by (simp add: exampleArgs_def exampleBooking_def exampleEventType_def triggerFields_def
        eventTypeInfo_def optChain_def obj_get_def)
  have 3: "obj_get (payloadOf exampleArgs) ''title'' =
     Some (JStr ''Consultation between Organizer and Booker'')"
    using payload_precedence[OF w c, of "''title''"]
    by (simp add: exampleArgs_def exampleEvt_def triggerFields_def
        eventTypeInfo_def obj_get_def)
  from w c e 1 2 3 show ?thesis by simp
qed

lemma orphan_resolved:
  "getWebhooks exampleEnv (optionsOf orphanArgs) = Fulfils 2 [hookUp, hookDown]"
  by (simp add: exampleEnv_def orphanArgs_def exampleArgs_def exampleBooking_def
      webhookOptions_def exampleStore_def subscribed_def
      hookUp_def hookDown_def hookOff_def hookCreatedOnly_def hook_def)


lemma example_handle_delivers:
  assumes "evt args = exampleEvt"
    and "getWebhooks exampleEnv (optionsOf args) = Fulfils 2 [hookUp, hookDown]"
  shows "(4, SendPayload None BOOKING_REQUESTED ''2023-09-01T10:00:00.000Z'' hookUp
            (payloadOf args)) \<in> set (calls (handleBookingRequested exampleEnv args 0))"
proof -
  have o: "sendOrganizerRequestEmail exampleEnv (spread [] exampleEvt) = Fulfils 1 ()"
    by (simp add: exampleEnv_def)
  have b: "\<And>x. sendAttendeeRequestEmail exampleEnv (spread [] exampleEvt) x = Fulfils 1 ()"
    by (simp add: exampleEnv_def)
  have n: "isoNow exampleEnv = (\<lambda>i. ''2023-09-01T10:00:00.000Z'')"
    by (simp add: exampleEnv_def)
  have s: "wh_secret hookUp = None"
    by (simp add: hookUp_def hook_def)
  show ?thesis
    by (simp add: handleBookingRequested_def assms(1) o b example_firstAttendee
        notify_Fulfils[OF assms(2)] enumerate_simps deliveryCall_def n s)
qed

text \<open>
  Claim C5.  When the event type record of the booking is unavailable
  (\<^verbatim>\<open>booking.eventType\<close> is null), every payload handed to \<^verbatim>\<open>sendPayload\<close> still has the
  six keys of the event-type info as own properties: \<^verbatim>\<open>eventTitle\<close>,
  \<^verbatim>\<open>eventDescription\<close>, \<^verbatim>\<open>price\<close>, \<^verbatim>\<open>currency\<close> and \<^verbatim>\<open>length\<close> with the value
  \<^verbatim>\<open>undefined\<close>, and \<^verbatim>\<open>requiresConfirmation\<close> with the value \<^verbatim>\<open>null\<close>.
\<close>

theorem event_type_keys_present_when_unavailable:
  assumes "eventType (booking args) = None"
    and "(tc, SendPayload secret trigger createdAt sub payload)
           \<in> set (calls (handleBookingRequested env args t))"
  shows "obj_get payload ''eventTitle'' = Some JUndefined \<and>
         obj_get payload ''eventDescription'' = Some JUndefined \<and>
         obj_get payload ''requiresConfirmation'' = Some JNull \<and>
         obj_get payload ''price'' = Some JUndefined \<and>
         obj_get payload ''currency'' = Some JUndefined \<and>
         obj_get payload ''length'' = Some JUndefined"
proof -
  from handle_delivery_in_calls[OF assms(2)] obtain t' where
    "(tc, SendPayload secret trigger createdAt sub payload) \<in> set (calls (notify env args t'))"
    by blast
  then have p: "payload = payloadOf args" by (rule delivery_in_calls)
  have i: "eventTypeInfo (booking args) =
     [(''eventTitle'', JUndefined), (''eventDescription'', JUndefined),
      (''requiresConfirmation'', JNull), (''price'', JUndefined),
      (''currency'', JUndefined), (''length'', JUndefined)]"
    by (simp add: eventTypeInfo_def optChain_def assms(1) js_or_def)
  have g: "\<And>k. obj_get payload k =
     (case obj_get (triggerFields (bookingId args)) k of
       Some v \<Rightarrow> Some v
     | None \<Rightarrow> (case obj_get (eventTypeInfo (booking args)) k of
          Some v \<Rightarrow> Some v | None \<Rightarrow> obj_get (spread [] (evt args)) k))"
    unfolding p by (rule buildPayload_get[OF wf_eventTypeInfo])
  show ?thesis
    unfolding g i by (simp add: triggerFields_def obj_get_def)
qed

theorem event_type_keys_present_witness:
  "eventType (booking orphanArgs) = None \<and>
   (4, SendPayload None BOOKING_REQUESTED ''2023-09-01T10:00:00.000Z'' hookUp
         (payloadOf orphanArgs))
      \<in> set (calls (handleBookingRequested exampleEnv orphanArgs 0)) \<and>
   obj_get (evt orphanArgs) ''length'' = Some (JNum 30) \<and>
   obj_get (payloadOf orphanArgs) ''length'' = Some JUndefined \<and>
   obj_get (payloadOf orphanArgs) ''eventTitle'' = Some JUndefined \<and>
   obj_get (payloadOf orphanArgs) ''requiresConfirmation'' = Some JNull"
proof -
  have n: "eventType (booking orphanArgs) = None"
    by (simp add: orphanArgs_def)
  have e: "evt orphanArgs = exampleEvt"
    by (simp add: orphanArgs_def exampleArgs_def)
  note c = example_handle_delivers[OF e orphan_resolved]
  have l: "obj_get (evt orphanArgs) ''length'' = Some (JNum 30)"
    by (simp add: e exampleEvt_def obj_get_def)
  from event_type_keys_present_when_unavailable[OF n c] n c l show ?thesis by simp
qed



subsection \<open>The fan-out\<close>

text \<open>
  Claim C1.  When the resolver \<^verbatim>\<open>getWebhooks\<close> rejects, the \<^verbatim>\<open>try\<close>/\<^verbatim>\<open>catch\<close> statement logs
  the error with \<^verbatim>\<open>console.error\<close>, calls \<^verbatim>\<open>sendPayload\<close> not once, and completes normally
  at the time of the rejection: nothing is thrown to the caller.
\<close>

theorem resolver_failure_is_swallowed:
  assumes "getWebhooks env (optionsOf args) = Rejects d e"
  shows "console (notify env args t) = [(t + d, CaughtError e)] \<and>
         attempts (notify env args t) = [] \<and>
         completion (notify env args t) = Returns (t + d)"
  using assms by (simp add: notify_Rejects attempts_def map_filter_simps)

theorem resolver_failure_witness:
  "getWebhooks storageDownEnv (optionsOf exampleArgs) =
     Rejects 4 (Failure ''database unreachable'') \<and>
   console (notify storageDownEnv exampleArgs 0) =
     [(4, CaughtError (Failure ''database unreachable''))] \<and>
   attempts (notify storageDownEnv exampleArgs 0) = [] \<and>
   completion (notify storageDownEnv exampleArgs 0) = Returns 4"
proof -
  have h: "getWebhooks storageDownEnv (optionsOf exampleArgs) =
     Rejects 4 (Failure ''database unreachable'')"
    by (simp add: storageDownEnv_def)
  from resolver_failure_is_swallowed[OF h, of 0] h show ?thesis by simp
qed

lemma nth_enumerate0: "i < length subs \<Longrightarrow> enumerate 0 subs ! i = (i, subs ! i)"
  by (simp add: nth_enumerate_eq)

lemma console_of_rejection:
  assumes "p \<in> set (enumerate 0 subs)"
    and "deliveryPromise env pl p = Rejects d' e"
  shows "(t1 + d', WebhookError (webhookErrorMessage (snd p)) e)
           \<in> set (concat (map (\<lambda>p. catchHandler t1 (snd p) (deliveryPromise env pl p))
                  (enumerate 0 subs)))"
  using assms by (auto simp: catchHandler_def intro!: bexI[of _ p])

text \<open>
  Claim C2.  When \<^verbatim>\<open>sendPayload\<close> rejects for the \<open>i\<close>-th resolved subscriber, the rejection
  is logged by that delivery's own \<^verbatim>\<open>.catch\<close> handler, with the subscriber's URL and at the
  time of the rejection; every resolved subscriber, the siblings included, is called exactly
  once with its own secret and the payload; and nothing is thrown to the caller.
\<close>

theorem delivery_failure_is_isolated:
  assumes "getWebhooks env (optionsOf args) = Fulfils d subs"
    and "i < length subs"
    and "sendPayload env (wh_secret (subs ! i)) BOOKING_REQUESTED (isoNow env i) (subs ! i)
           (payloadOf args) = Rejects d' e"
  shows "(t + d + d', WebhookError (webhookErrorMessage (subs ! i)) e)
           \<in> set (console (notify env args t)) \<and>
         attempts (notify env args t) = subs \<and>
         (\<forall>j < length subs.
            calls (notify env args t) ! Suc j =
              (t + d, SendPayload (wh_secret (subs ! j)) BOOKING_REQUESTED (isoNow env j)
                        (subs ! j) (payloadOf args))) \<and>
         (\<forall>t' e'. completion (notify env args t) \<noteq> Throws t' e')"
proof -
  have m: "(i, subs ! i) \<in> set (enumerate 0 subs)"
    using assms(2) by (simp add: in_set_enumerate_eq)
  have r: "deliveryPromise env (payloadOf args) (i, subs ! i) = Rejects d' e"
    using assms(3) by (simp add: deliveryPromise_def)
  have 1: "(t + d + d', WebhookError (webhookErrorMessage (subs ! i)) e)
           \<in> set (console (notify env args t))"
    using console_of_rejection[OF m r, of "t + d"] by (simp add: notify_Fulfils[OF assms(1)])
  have 2: "attempts (notify env args t) = subs"
    by (simp add: attempts_notify assms(1))
  have 3: "\<forall>j < length subs.
            calls (notify env args t) ! Suc j =
              (t + d, SendPayload (wh_secret (subs ! j)) BOOKING_REQUESTED (isoNow env j)
                        (subs ! j) (payloadOf args))"
    by (simp add: notify_Fulfils[OF assms(1)] nth_enumerate0 deliveryCall_def)
  from 1 2 3 notify_no_throw show ?thesis by blast
qed


lemma example_sendPayload_down:
  "sendPayload exampleEnv (wh_secret ([hookUp, hookDown] ! 1)) BOOKING_REQUESTED
     (isoNow exampleEnv 1) ([hookUp, hookDown] ! 1) (payloadOf exampleArgs) =
   Rejects 5 (Failure ''ECONNREFUSED'')"
  by (simp add: exampleEnv_def hookDown_def hook_def)

theorem delivery_failure_witness:
  "getWebhooks exampleEnv (optionsOf exampleArgs) = Fulfils 2 [hookUp, hookDown] \<and>
   sendPayload exampleEnv (wh_secret hookDown) BOOKING_REQUESTED (isoNow exampleEnv 1)
     hookDown (payloadOf exampleArgs) = Rejects 5 (Failure ''ECONNREFUSED'') \<and>
   (7, WebhookError
         ''Error executing webhook for event: BOOKING_REQUESTED, URL: http://down.example.com''
         (Failure ''ECONNREFUSED''))
      \<in> set (console (notify exampleEnv exampleArgs 0)) \<and>
   attempts (notify exampleEnv exampleArgs 0) = [hookUp, hookDown] \<and>
   calls (notify exampleEnv exampleArgs 0) ! 1 =
     (2, SendPayload None BOOKING_REQUESTED ''2023-09-01T10:00:00.000Z'' hookUp
           (payloadOf exampleArgs))"
proof -
  have l: "(1::nat) < length [hookUp, hookDown]" by simp
  have m: "webhookErrorMessage hookDown =
     ''Error executing webhook for event: BOOKING_REQUESTED, URL: http://down.example.com''"
    by (simp add: webhookErrorMessage_def hookDown_def hook_def)
  have u: "wh_secret hookUp = None" "isoNow exampleEnv 0 = ''2023-09-01T10:00:00.000Z''"
    by (simp_all add: hookUp_def hook_def exampleEnv_def)
  from delivery_failure_is_isolated[OF example_resolved l example_sendPayload_down, of 0]
  have "(7, WebhookError (webhookErrorMessage hookDown) (Failure ''ECONNREFUSED''))
           \<in> set (console (notify exampleEnv exampleArgs 0))"
    and "attempts (notify exampleEnv exampleArgs 0) = [hookUp, hookDown]"
    and "calls (notify exampleEnv exampleArgs 0) ! Suc 0 =
              (2, SendPayload (wh_secret hookUp) BOOKING_REQUESTED (isoNow exampleEnv 0)
                        hookUp (payloadOf exampleArgs))"
    by simp_all
  with example_resolved example_sendPayload_down m u show ?thesis by simp
qed

lemma length_console_deliveries:
  "length (concat (map (\<lambda>p. catchHandler t1 (snd p) (deliveryPromise env pl p)) ps)) =
   length (filter (\<lambda>p. isRejected (deliveryPromise env pl p)) ps)"
  by (induction ps) (auto simp: catchHandler_def split: promise.splits)

text \<open>
  Claim C6.  Whatever the deliveries do, one call of \<^verbatim>\<open>notify\<close> calls \<^verbatim>\<open>sendPayload\<close> once
  for each occurrence of a subscription in the resolved list and never again: the attempts
  are the resolved list itself, and the log has one line for each delivery that rejects and
  none besides.
\<close>

theorem one_attempt_per_subscriber:
  assumes "getWebhooks env (optionsOf args) = Fulfils d subs"
  shows "attempts (notify env args t) = subs \<and>
         length (calls (notify env args t)) = Suc (length subs) \<and>
         (\<forall>s. count_list (attempts (notify env args t)) s = count_list subs s) \<and>
         length (console (notify env args t)) =
           length (filter (\<lambda>p. isRejected (deliveryPromise env (payloadOf args) p))
                     (enumerate 0 subs))"
proof -
  have a: "attempts (notify env args t) = subs"
    by (simp add: attempts_notify assms)
  have c: "length (calls (notify env args t)) = Suc (length subs)"
    by (simp add: notify_Fulfils[OF assms])
  have l: "length (console (notify env args t)) =
           length (filter (\<lambda>p. isRejected (deliveryPromise env (payloadOf args) p))
                     (enumerate 0 subs))"
    by (simp add: notify_Fulfils[OF assms] length_console_deliveries)
  from a c l show ?thesis by simp
qed

theorem one_attempt_witness:
  "getWebhooks exampleEnv (optionsOf exampleArgs) = Fulfils 2 [hookUp, hookDown] \<and>
   attempts (notify exampleEnv exampleArgs 0) = [hookUp, hookDown] \<and>
   length (calls (notify exampleEnv exampleArgs 0)) = 3 \<and>
   count_list (attempts (notify exampleEnv exampleArgs 0)) hookDown = 1 \<and>
   length (console (notify exampleEnv exampleArgs 0)) = 1"
proof -
  have n: "hookUp \<noteq> hookDown" by (simp add: hookUp_def hookDown_def hook_def)
  have f: "length (filter (\<lambda>p. isRejected (deliveryPromise exampleEnv (payloadOf exampleArgs) p))
                     (enumerate 0 [hookUp, hookDown])) = 1"
    by (simp add: enumerate_simps deliveryPromise_def exampleEnv_def hookUp_def hookDown_def
        hook_def)
  from one_attempt_per_subscriber[OF example_resolved, of 0] example_resolved n f
  show ?thesis by simp
qed

lemma notify_returns_when_all_settle:
  assumes "getWebhooks env (optionsOf args) = Fulfils d subs"
    and "\<forall>p \<in> set (enumerate 0 subs). deliveryPromise env (payloadOf args) p \<noteq> NeverSettles"
  shows "\<exists>tr. completion (notify env args t) = Returns tr"
proof -
  have "None \<notin> set (map (\<lambda>p. settledAt (t + d) (deliveryPromise env (payloadOf args) p))
           (enumerate 0 subs))"
    using assms(2) by (auto simp: settledAt_def split: promise.splits)
  from awaitAll_total[OF this] show ?thesis
    by (simp add: notify_Fulfils[OF assms(1)])
qed


lemma example_notify_completion: "completion (notify exampleEnv exampleArgs 0) = Returns 7"
  unfolding notify_Fulfils[OF example_resolved]
  by (simp add: enumerate_simps deliveryPromise_def settledAt_def exampleEnv_def
      hookUp_def hookDown_def hook_def)



subsection \<open>Repeated calls\<close>

lemma attempts_notifyTwice:
  assumes "completion (notify env args t) = Returns t1"
  shows "attempts (notifyTwice env env' args t) =
           attempts (notify env args t) @ attempts (notify env' args t1)"
  using assms by (simp add: notifyTwice_def attempts_def List.map_filter_def Let_def)

text \<open>
  Claim C8.  \<^verbatim>\<open>notify\<close> keeps no record of what it has delivered: awaited twice with the
  same arguments while the resolver returns the same subscribers, it calls \<^verbatim>\<open>sendPayload\<close>
  for every one of them in the first call and again in the second, twice as often as a
  single call does.
\<close>

theorem notify_twice_delivers_twice:
  assumes "getWebhooks env (optionsOf args) = Fulfils d subs"
    and "getWebhooks env' (optionsOf args) = Fulfils d' subs"
    and "completion (notify env args t) = Returns t1"
  shows "attempts (notifyTwice env env' args t) = subs @ subs \<and>
         count_list (attempts (notifyTwice env env' args t)) s =
           2 * count_list (attempts (notify env args t)) s"
  by (simp add: attempts_notifyTwice[OF assms(3)] attempts_notify assms(1,2))

theorem notify_twice_witness:
  "getWebhooks exampleEnv (optionsOf exampleArgs) = Fulfils 2 [hookUp, hookDown] \<and>
   completion (notify exampleEnv exampleArgs 0) = Returns 7 \<and>
   attempts (notifyTwice exampleEnv exampleEnv exampleArgs 0) =
     [hookUp, hookDown, hookUp, hookDown] \<and>
   count_list (attempts (notify exampleEnv exampleArgs 0)) hookUp = 1 \<and>
   count_list (attempts (notifyTwice exampleEnv exampleEnv exampleArgs 0)) hookUp = 2"
proof -
  have n: "hookUp \<noteq> hookDown" by (simp add: hookUp_def hookDown_def hook_def)
  have a: "attempts (notify exampleEnv exampleArgs 0) = [hookUp, hookDown]"
    by (simp add: attempts_notify example_resolved)
  from notify_twice_delivers_twice[OF example_resolved example_resolved
      example_notify_completion, of hookUp]
    example_resolved example_notify_completion a n
  show ?thesis by simp
qed

subsection \<open>The mails\<close>

text \<open>
  Claim C10.  Both request mails are sent and awaited before the resolver is asked, and they
  are outside the \<^verbatim>\<open>try\<close>.  When the organizer's mail rejects, or the attendee's mail is
  sent and rejects, the promise of \<^verbatim>\<open>handleBookingRequested\<close> rejects with that error and
  neither the resolver nor \<^verbatim>\<open>sendPayload\<close> is called.  A run that reaches the resolver or a
  delivery has both mails fulfilled and their calls first, and enters the \<^verbatim>\<open>try\<close> when the
  second mail has settled.
\<close>

theorem mails_before_webhooks:
  "(mailFailure env args = Some e \<longrightarrow>
      (\<exists>tr. completion (handleBookingRequested env args t) = Throws tr e) \<and>
      webhookCalls (handleBookingRequested env args t) = [] \<and>
      attempts (handleBookingRequested env args t) = []) \<and>
   (webhookCalls (handleBookingRequested env args t) \<noteq> [] \<longrightarrow>
      (\<exists>d d' a.
         sendOrganizerRequestEmail env (spread [] (evt args)) = Fulfils d () \<and>
         firstAttendee (evt args) = Inr a \<and>
         sendAttendeeRequestEmail env (spread [] (evt args)) a = Fulfils d' () \<and>
         calls (handleBookingRequested env args t) =
           (t, SendOrganizerRequestEmail (spread [] (evt args))) #
           (t + d, SendAttendeeRequestEmail (spread [] (evt args)) a) #
           calls (notify env args (t + d + d'))))"
proof (intro conjI impI)
  assume f: "mailFailure env args = Some e"
  then show "\<exists>tr. completion (handleBookingRequested env args t) = Throws tr e"
    by (auto simp: mailFailure_def handleBookingRequested_def
        split: promise.splits sum.splits)
  from f show "webhookCalls (handleBookingRequested env args t) = []"
    by (auto simp: mailFailure_def handleBookingRequested_def webhookCalls_def
        split: promise.splits sum.splits)
  from f show "attempts (handleBookingRequested env args t) = []"
    by (auto simp: mailFailure_def handleBookingRequested_def attempts_def map_filter_simps
        split: promise.splits sum.splits)
next
  assume "webhookCalls (handleBookingRequested env args t) \<noteq> []"
  from handle_reaches_notify[OF this]
  show "\<exists>d d' a.
         sendOrganizerRequestEmail env (spread [] (evt args)) = Fulfils d () \<and>
         firstAttendee (evt args) = Inr a \<and>
         sendAttendeeRequestEmail env (spread [] (evt args)) a = Fulfils d' () \<and>
         calls (handleBookingRequested env args t) =
           (t, SendOrganizerRequestEmail (spread [] (evt args))) #
           (t + d, SendAttendeeRequestEmail (spread [] (evt args)) a) #
           calls (notify env args (t + d + d'))"
    by blast
qed

theorem mails_before_webhooks_witness:
  "mailFailure mailDownEnv exampleArgs = Some (Failure ''SMTP unavailable'') \<and>
   completion (handleBookingRequested mailDownEnv exampleArgs 0) =
     Throws 2 (Failure ''SMTP unavailable'') \<and>
   calls (handleBookingRequested mailDownEnv exampleArgs 0) =
     [(0, SendOrganizerRequestEmail (spread [] exampleEvt))] \<and>
   mailFailure attendeeMailDownEnv exampleArgs = Some (Failure ''mailbox full'') \<and>
   completion (handleBookingRequested attendeeMailDownEnv exampleArgs 0) =
     Throws 4 (Failure ''mailbox full'') \<and>
   webhookCalls (handleBookingRequested attendeeMailDownEnv exampleArgs 0) = [] \<and>
   webhookCalls (handleBookingRequested exampleEnv exampleArgs 0) \<noteq> [] \<and>
   take 3 (calls (handleBookingRequested exampleEnv exampleArgs 0)) =
     [(0, SendOrganizerRequestEmail (spread [] exampleEvt)),
      (1, SendAttendeeRequestEmail (spread [] exampleEvt)
            (JObj [(''email'', JStr ''booker@example.com''), (''name'', JStr ''Booker'')])),
      (2, GetWebhooks (optionsOf exampleArgs))]"
proof -
  have a: "evt exampleArgs = exampleEvt" by (simp add: exampleArgs_def)
  have f1: "mailFailure mailDownEnv exampleArgs = Some (Failure ''SMTP unavailable'')"
    by (simp add: mailFailure_def mailDownEnv_def)
  have c1: "handleBookingRequested mailDownEnv exampleArgs 0 =
     \<lparr>calls = [(0, SendOrganizerRequestEmail (spread [] exampleEvt))], console = [],
      completion = Throws 2 (Failure ''SMTP unavailable'')\<rparr>"
    by (simp add: handleBookingRequested_def mailDownEnv_def a)
  have f2: "mailFailure attendeeMailDownEnv exampleArgs = Some (Failure ''mailbox full'')"
    by (simp add: mailFailure_def attendeeMailDownEnv_def exampleEnv_def a
        example_firstAttendee)
  have c2: "completion (handleBookingRequested attendeeMailDownEnv exampleArgs 0) =
     Throws 4 (Failure ''mailbox full'')"
    by (simp add: handleBookingRequested_def attendeeMailDownEnv_def exampleEnv_def a
        example_firstAttendee)
  have w: "webhookCalls (handleBookingRequested exampleEnv exampleArgs 0) \<noteq> []"
    by (simp add: example_handle_calls webhookCalls_def)
  have k: "take 3 (calls (handleBookingRequested exampleEnv exampleArgs 0)) =
     [(0, SendOrganizerRequestEmail (spread [] exampleEvt)),
      (1, SendAttendeeRequestEmail (spread [] exampleEvt)
            (JObj [(''email'', JStr ''booker@example.com''), (''name'', JStr ''Booker'')])),
      (2, GetWebhooks (optionsOf exampleArgs))]"
    by (simp add: example_handle_calls)
  from mails_before_webhooks[of attendeeMailDownEnv exampleArgs "Failure ''mailbox full''" 0]
    f2
  have "webhookCalls (handleBookingRequested attendeeMailDownEnv exampleArgs 0) = []"
    by blast
  with f1 c1 f2 c2 w k show ?thesis by simp
qed

subsection \<open>Deliveries and the resolver's answer\<close>









end
